theory Spec2Isabelle
  imports Complex_Main
begin

section \<open>QuantX: option analytics, consensus score, strategy and backtest engines\<close>

text \<open>
  A shallow embedding of the numeric core of the QuantX backend (Python). Python floats are
  read as real numbers and rounding is outside the embedding. Two departures of floats from
  the reals are modelled where ordinary inputs reach them: the overflow of \<open>math.exp\<close> in the
  logistic probability model (\<open>py_exp\<close>), and the values inf and nan that numpy's division
  by zero puts into the backtest statistics (\<open>npfloat\<close>). Everywhere else an overflow
  needs inputs far from a market's (the tree models, for one, need iv sqrt (75 t) above
  709.78) and is left out. Python's unbounded integers are \<open>int\<close>, lists are lists, a
  \<open>dict\<close> is a map, and an exception that a function can raise is a value \<open>Inl e\<close> of the
  result type \<open>error + 'a\<close>.

  Naming: every function keeps its source name (without a leading underscore, which a HOL
  name cannot start with). A pydantic model becomes a record; its fields carry a short prefix
  of the model's name, since a field named \<open>iv\<close> or \<open>price\<close> would otherwise capture the
  variables of the same name in every later definition.
\<close>

subsection \<open>Errors and partial operations of Python\<close>

datatype error = ZeroDivisionError | TypeError | ValueError | OverflowError | NotANumber

text \<open>
  The first four are Python exceptions. \<open>NotANumber\<close> stands for a float result that is
  nan where the result type is \<open>real\<close>: numpy returns it instead of raising.

  True division of floats raises \<open>ZeroDivisionError\<close> on a zero divisor; \<open>math.sqrt\<close> and
  \<open>math.log\<close> raise \<open>ValueError\<close> outside their domains. These checked forms are used
  wherever no guard of the calling function already excludes the error; behind such a guard
  the plain operations of HOL are written.
\<close>

definition py_div :: "real \<Rightarrow> real \<Rightarrow> error + real" where
  "py_div a b = (if b = 0 then Inl ZeroDivisionError else Inr (a / b))"





definition bind_err :: "error + 'a \<Rightarrow> ('a \<Rightarrow> error + 'b) \<Rightarrow> error + 'b" where
  "bind_err r f = (case r of Inl e \<Rightarrow> Inl e | Inr x \<Rightarrow> f x)"


text \<open>
  A float of numpy: a real number, plus or minus infinity, or nan, with the arithmetic of
  IEEE 754 on the three special values (rounding aside). A zero is read as +0.0, so a
  positive number divided by zero is inf and a negative one -inf; every comparison with nan
  is false.
\<close>

datatype npfloat = Fin real | PosInf | NegInf | NaN

fun ieee_neg :: "npfloat \<Rightarrow> npfloat" where
  "ieee_neg (Fin x) = Fin (- x)"
| "ieee_neg PosInf = NegInf"
| "ieee_neg NegInf = PosInf"
| "ieee_neg NaN = NaN"

fun ieee_abs :: "npfloat \<Rightarrow> npfloat" where
  "ieee_abs (Fin x) = Fin \<bar>x\<bar>"
| "ieee_abs PosInf = PosInf"
| "ieee_abs NegInf = PosInf"
| "ieee_abs NaN = NaN"

fun ieee_add :: "npfloat \<Rightarrow> npfloat \<Rightarrow> npfloat" where
  "ieee_add (Fin a) (Fin b) = Fin (a + b)"
| "ieee_add (Fin a) PosInf = PosInf"
| "ieee_add (Fin a) NegInf = NegInf"
| "ieee_add PosInf (Fin b) = PosInf"
| "ieee_add PosInf PosInf = PosInf"
| "ieee_add NegInf (Fin b) = NegInf"
| "ieee_add NegInf NegInf = NegInf"
| "ieee_add _ _ = NaN"

definition ieee_sub :: "npfloat \<Rightarrow> npfloat \<Rightarrow> npfloat" where
  "ieee_sub a b = ieee_add a (ieee_neg b)"

fun ieee_mul :: "npfloat \<Rightarrow> npfloat \<Rightarrow> npfloat" where
  "ieee_mul (Fin a) (Fin b) = Fin (a * b)"
| "ieee_mul (Fin a) PosInf = (if 0 < a then PosInf else if a < 0 then NegInf else NaN)"
| "ieee_mul (Fin a) NegInf = (if 0 < a then NegInf else if a < 0 then PosInf else NaN)"
| "ieee_mul PosInf (Fin b) = (if 0 < b then PosInf else if b < 0 then NegInf else NaN)"
| "ieee_mul NegInf (Fin b) = (if 0 < b then NegInf else if b < 0 then PosInf else NaN)"
| "ieee_mul PosInf PosInf = PosInf"
| "ieee_mul PosInf NegInf = NegInf"
| "ieee_mul NegInf PosInf = NegInf"
| "ieee_mul NegInf NegInf = PosInf"
| "ieee_mul _ _ = NaN"

fun ieee_div :: "npfloat \<Rightarrow> npfloat \<Rightarrow> npfloat" where
  "ieee_div (Fin a) (Fin b) =
     (if b \<noteq> 0 then Fin (a / b)
      else if 0 < a then PosInf else if a < 0 then NegInf else NaN)"
| "ieee_div (Fin a) PosInf = Fin 0"
| "ieee_div (Fin a) NegInf = Fin 0"
| "ieee_div PosInf (Fin b) = (if 0 \<le> b then PosInf else NegInf)"
| "ieee_div NegInf (Fin b) = (if 0 \<le> b then NegInf else PosInf)"
| "ieee_div _ _ = NaN"

fun ieee_sqrt :: "npfloat \<Rightarrow> npfloat" where
  "ieee_sqrt (Fin x) = (if x < 0 then NaN else Fin (sqrt x))"
| "ieee_sqrt PosInf = PosInf"
| "ieee_sqrt _ = NaN"

text \<open>The comparisons \<open>x > 0\<close> and \<open>x < 0\<close>, and the minimum as \<open>ndarray.min\<close> takes it.\<close>

fun ieee_gt0 :: "npfloat \<Rightarrow> bool" where
  "ieee_gt0 (Fin x) = (0 < x)"
| "ieee_gt0 PosInf = True"
| "ieee_gt0 _ = False"

fun ieee_lt0 :: "npfloat \<Rightarrow> bool" where
  "ieee_lt0 (Fin x) = (x < 0)"
| "ieee_lt0 NegInf = True"
| "ieee_lt0 _ = False"

fun ieee_min :: "npfloat \<Rightarrow> npfloat \<Rightarrow> npfloat" where
  "ieee_min (Fin a) (Fin b) = Fin (min a b)"
| "ieee_min NaN _ = NaN"
| "ieee_min _ NaN = NaN"
| "ieee_min NegInf _ = NegInf"
| "ieee_min _ NegInf = NegInf"
| "ieee_min PosInf b = b"
| "ieee_min a PosInf = a"



subsection \<open>Enums and models (app/models/enums.py, app/models/schemas.py)\<close>

datatype OptionType = CALL | PUT

datatype StrategyMode = LIVE | BACKTEST

datatype TrendDirection = UP | DOWN | SIDEWAYS

datatype MarketRegime = BULL | BEAR | RANGE | VOLATILE



record ProbabilityResult =
  pr_d2_probability :: real
  pr_lognormal_itm_probability :: real
  pr_binomial_itm_probability :: real
  pr_monte_carlo_itm_probability :: real
  pr_expected_move :: real

text \<open>
  \<open>IVResponse\<close>: \<open>iv_rank\<close>, \<open>iv_percentile\<close> and \<open>hv\<close> are \<open>Optional[float]\<close>. The schema
  declares \<open>iv: float\<close>, but \<open>compute_consensus\<close> tests \<open>volatility.iv is not None\<close>, so the
  field is an option here as well and the test is kept in the model.
\<close>

record IVResponse =
  vol_iv :: "real option"
  vol_iv_rank :: "real option"
  vol_iv_percentile :: "real option"
  vol_hv :: "real option"

record OIResponse =
  oi_spike_score :: real
  oi_volume_oi_ratio :: real
  oi_trend :: string
  oi_anomaly_score :: real
  oi_pcr_oi :: "real option"
  oi_pcr_volume :: "real option"

record MarketResponse =
  mk_atr_trend :: TrendDirection
  mk_vwap_signal :: string
  mk_bollinger_squeeze :: real
  mk_trend_signal :: TrendDirection
  mk_mean_reversion_score :: real
  mk_regime :: MarketRegime

text \<open>
  \<open>ConsensusResponse\<close>: \<open>details\<close> is a \<open>Dict[str, Any]\<close>; \<open>compute_consensus\<close> stores four
  floats in it.
\<close>

record ConsensusResponse =
  confidence_score :: real
  details :: "string \<rightharpoonup> real"


text \<open>
  \<open>Filter.params\<close> is a \<open>Dict[str, Any]\<close>. The engine compares the entry \<open>"value"\<close> with a
  number (\<open>min_volume\<close>) or with a string (\<open>session\<close>); \<open>PNone\<close> stands for every value
  that is neither.
\<close>

datatype param = PNum real | PStr string | PNone



record ExitRule =
  e_type :: string
  e_value :: real




record BacktestStats =
  bs_total_trades :: nat
  bs_win_rate :: npfloat
  bs_profit_factor :: npfloat
  bs_max_drawdown :: npfloat
  bs_sharpe :: npfloat


subsection \<open>The standard normal distribution (scipy.stats.norm)\<close>

text \<open>
  \<open>norm.pdf\<close> is the standard normal density. \<open>norm.cdf\<close> is library code outside the
  repository: the functions that call it take it as their first argument \<open>cdf\<close>.
  \<open>norm_cdf\<close> is the standard normal distribution function itself, given by its Maclaurin
  series \<open>1/2 + (1 / sqrt (2 pi)) (\<Sum>n. (-1)^n x^(2n+1) / (2^n n! (2n+1)))\<close>; that its
  derivative is the density and its value at 0 is 1/2 is proved below (\<open>DERIV_norm_cdf\<close>,
  \<open>norm_cdf_zero\<close>).
\<close>

definition norm_pdf :: "real \<Rightarrow> real" where
  "norm_pdf x = exp (- (x ^ 2) / 2) / sqrt (2 * pi)"

definition norm_cdf_term :: "real \<Rightarrow> nat \<Rightarrow> real" where
  "norm_cdf_term x n = (- 1) ^ n * x ^ (2 * n + 1) / (2 ^ n * fact n * real (2 * n + 1))"

definition norm_cdf :: "real \<Rightarrow> real" where
  "norm_cdf x = 1 / 2 + (\<Sum>n. norm_cdf_term x n) / sqrt (2 * pi)"

text \<open>The coefficient of \<open>x^(2n+1)\<close> in that series, used in the proofs about \<open>norm_cdf\<close>.\<close>

definition cdf_coeff :: "nat \<Rightarrow> real" where
  "cdf_coeff n = (- 1) ^ n / (2 ^ n * fact n * real (2 * n + 1))"

subsection \<open>Pricing primitives and probability models (app/services/probability.py)\<close>

text \<open>
  \<open>_d1_d2\<close>, defined with the same body in probability.py and in greeks.py. Behind its
  guard \<open>spot / strike\<close> is positive and \<open>iv * sqrt t\<close> is not zero.
\<close>

definition d1_d2 :: "real \<Rightarrow> real \<Rightarrow> real \<Rightarrow> real \<Rightarrow> real \<Rightarrow> real \<times> real" where
  "d1_d2 spot strike t iv r =
     (if t \<le> 0 \<or> iv \<le> 0 \<or> spot \<le> 0 \<or> strike \<le> 0 then (0, 0)
      else let d1 = (ln (spot / strike) + (r + 0.5 * iv ^ 2) * t) / (iv * sqrt t);
               d2 = d1 - iv * sqrt t
           in (d1, d2))"

definition black_scholes_d2_probability ::
  "(real \<Rightarrow> real) \<Rightarrow> real \<Rightarrow> real \<Rightarrow> int \<Rightarrow> real \<Rightarrow> OptionType \<Rightarrow> real"
where
  "black_scholes_d2_probability cdf spot strike days_to_expiry iv option_type =
     (let t = real_of_int (max days_to_expiry 1) / 252;
          d2 = snd (d1_d2 spot strike t iv 0)
      in if option_type = CALL then cdf d2 else cdf (- d2))"

definition lognormal_itm_probability ::
  "(real \<Rightarrow> real) \<Rightarrow> real \<Rightarrow> real \<Rightarrow> int \<Rightarrow> real \<Rightarrow> real"
where
  "lognormal_itm_probability cdf spot strike days_to_expiry iv =
     (let t = real_of_int (max days_to_expiry 1) / 252
      in if spot \<le> 0 \<or> strike \<le> 0 \<or> iv \<le> 0 \<or> t \<le> 0 then 0
         else let mu = ln spot - 0.5 * iv ^ 2 * t;
                  sigma = iv * sqrt t;
                  z = (ln strike - mu) / sigma
              in 1 - cdf z)"



definition expected_move :: "real \<Rightarrow> int \<Rightarrow> real \<Rightarrow> real" where
  "expected_move spot days_to_expiry iv =
     (let t = real_of_int (max days_to_expiry 1) / 252
      in if spot \<le> 0 \<or> iv \<le> 0 \<or> t \<le> 0 then 0 else spot * iv * sqrt t)"














subsection \<open>Greeks (app/services/greeks.py)\<close>

definition black_scholes_price ::
  "(real \<Rightarrow> real) \<Rightarrow> real \<Rightarrow> real \<Rightarrow> int \<Rightarrow> real \<Rightarrow> OptionType \<Rightarrow> real \<Rightarrow> real"
where
  "black_scholes_price cdf spot strike days_to_expiry iv option_type rate =
     (let t = real_of_int (max days_to_expiry 1) / 252;
          (d1, d2) = d1_d2 spot strike t iv rate
      in if option_type = CALL
         then spot * cdf d1 - strike * exp (- rate * t) * cdf d2
         else strike * exp (- rate * t) * cdf (- d2) - spot * cdf (- d1))"

text \<open>
  \<open>compute_greeks\<close> returns a dict with the six keys below. Behind its guard the divisors
  \<open>spot * iv * sqrt t\<close> and \<open>2 * sqrt t\<close> are positive, so no operation of the body can
  raise.
\<close>

definition compute_greeks ::
  "(real \<Rightarrow> real) \<Rightarrow> real \<Rightarrow> real \<Rightarrow> int \<Rightarrow> real \<Rightarrow> OptionType \<Rightarrow> real \<Rightarrow> (string \<rightharpoonup> real)"
where
  "compute_greeks cdf spot strike days_to_expiry iv option_type rate =
     (let t = real_of_int (max days_to_expiry 1) / 252
      in if t \<le> 0 \<or> iv \<le> 0 \<or> spot \<le> 0 \<or> strike \<le> 0
         then [''price'' \<mapsto> 0, ''delta'' \<mapsto> 0, ''gamma'' \<mapsto> 0,
               ''theta'' \<mapsto> 0, ''vega'' \<mapsto> 0, ''rho'' \<mapsto> 0]
         else let (d1, d2) = d1_d2 spot strike t iv rate;
                  price = black_scholes_price cdf spot strike days_to_expiry iv option_type rate;
                  (delta, rho) =
                     (if option_type = CALL
                      then (cdf d1, t * strike * exp (- rate * t) * cdf d2)
                      else (cdf d1 - 1, - t * strike * exp (- rate * t) * cdf (- d2)));
                  gamma = norm_pdf d1 / (spot * iv * sqrt t);
                  vega = spot * norm_pdf d1 * sqrt t / 100;
                  theta =
                    (- (spot * norm_pdf d1 * iv / (2 * sqrt t))
                     - (rate * strike * exp (- rate * t)
                        * cdf (if option_type = CALL then d2 else - d2))) / 252
              in [''price'' \<mapsto> price, ''delta'' \<mapsto> delta, ''gamma'' \<mapsto> gamma,
                  ''theta'' \<mapsto> theta, ''vega'' \<mapsto> vega, ''rho'' \<mapsto> rho])"

subsection \<open>Volatility analytics (app/services/volatility.py)\<close>

definition iv_rank :: "real \<Rightarrow> real list \<Rightarrow> real" where
  "iv_rank iv history =
     (if history = [] then 0
      else let count = (\<Sum>x \<leftarrow> filter (\<lambda>x. x \<le> iv) history. (1::int))
           in 100 * real_of_int count / real (length history))"

definition iv_percentile :: "real \<Rightarrow> real list \<Rightarrow> real" where
  "iv_percentile iv history =
     (if history = [] then 0
      else let below = (\<Sum>x \<leftarrow> filter (\<lambda>x. x < iv) history. (1::int))
           in 100 * real_of_int below / real (length history))"

subsection \<open>Consensus engine (app/consensus/engine.py)\<close>

text \<open>
  Lines 18 to 24 of \<open>compute_consensus\<close>: the list \<open>vol_components\<close>. The guard of the
  first component tests \<open>volatility.hv > 0\<close>; the division is by \<open>volatility.iv\<close>.
\<close>

definition vol_components :: "IVResponse \<Rightarrow> error + real list" where
  "vol_components volatility =
     bind_err
       (if vol_iv volatility \<noteq> None \<and> vol_hv volatility \<noteq> None \<and> the (vol_hv volatility) > 0
        then bind_err (py_div (the (vol_hv volatility)) (the (vol_iv volatility)))
               (\<lambda>q. Inr [min 2 q * 50])
        else Inr [])
       (\<lambda>c1. Inr (c1
                 @ (case vol_iv_rank volatility of
                      None \<Rightarrow> [] | Some rk \<Rightarrow> [100 - \<bar>rk - 50\<bar>])
                 @ (case vol_iv_percentile volatility of
                      None \<Rightarrow> [] | Some pc \<Rightarrow> [100 - \<bar>pc - 50\<bar>])))"

definition trend_component :: "TrendDirection \<Rightarrow> real" where
  "trend_component tr = (if tr = UP then 70 else if tr = DOWN then 30 else 50)"

fun regime_map :: "MarketRegime \<Rightarrow> real" where
  "regime_map BULL = 70"
| "regime_map BEAR = 30"
| "regime_map RANGE = 50"
| "regime_map VOLATILE = 40"

definition compute_consensus ::
  "ProbabilityResult \<Rightarrow> IVResponse \<Rightarrow> OIResponse \<Rightarrow> MarketResponse \<Rightarrow> error + ConsensusResponse"
where
  "compute_consensus probability volatility oi market =
     (let prob_score =
            100 * max (pr_d2_probability probability) (pr_monte_carlo_itm_probability probability)
      in bind_err (vol_components volatility) (\<lambda>comps.
           let vol_score = (if comps \<noteq> [] then sum_list comps / real (length comps) else 50);
               oi_score = 100 - min 100 (\<bar>oi_spike_score oi\<bar> * 10 + oi_anomaly_score oi * 10);
               mr_component = 50 + mk_mean_reversion_score market * 10;
               market_score =
                 (mr_component + trend_component (mk_trend_signal market)
                  + regime_map (mk_regime market)) / 3;
               raw_score =
                 prob_score * 0.35 + vol_score * 0.25 + oi_score * 0.15 + market_score * 0.25
           in Inr \<lparr> confidence_score = max 0 (min 100 raw_score),
                    details = [''probability_score'' \<mapsto> prob_score,
                               ''volatility_score'' \<mapsto> vol_score,
                               ''oi_score'' \<mapsto> oi_score,
                               ''market_score'' \<mapsto> market_score] \<rparr>))"

subsection \<open>Strategy decision engine (app/strategies/engine.py)\<close>










subsection \<open>Backtest statistics (app/backtest/engine.py)\<close>

text \<open>
  The equity curve is a list of finite floats, read as reals (a zero entry being +0.0).
  numpy divides by zero without raising: the quotient is inf, -inf or nan, so the returns
  and every statistic computed from them are \<open>npfloat\<close> values. \<open>np.diff\<close> and
  \<open>np.maximum.accumulate\<close> of a finite curve are finite. \<open>np.sum\<close> adds in an order of its
  own; the result does not depend on the order as long as rounding is left aside.
\<close>

definition np_diff :: "real list \<Rightarrow> real list" where
  "np_diff xs = map2 (\<lambda>a b. b - a) (butlast xs) (tl xs)"

text \<open>Line 29: \<open>returns = np.diff(equity_curve) / equity_curve[:-1]\<close>.\<close>

definition curve_returns :: "real list \<Rightarrow> npfloat list" where
  "curve_returns equity_curve =
     map2 ieee_div (map Fin (np_diff equity_curve)) (map Fin (butlast equity_curve))"

fun maximum_accumulate_from :: "real \<Rightarrow> real list \<Rightarrow> real list" where
  "maximum_accumulate_from m [] = []"
| "maximum_accumulate_from m (x # xs) = max m x # maximum_accumulate_from (max m x) xs"

definition maximum_accumulate :: "real list \<Rightarrow> real list" where
  "maximum_accumulate xs = (case xs of [] \<Rightarrow> [] | x # ys \<Rightarrow> x # maximum_accumulate_from x ys)"

definition np_sum :: "npfloat list \<Rightarrow> npfloat" where
  "np_sum xs = foldr ieee_add xs (Fin 0)"

definition np_mean :: "npfloat list \<Rightarrow> npfloat" where
  "np_mean xs = ieee_div (np_sum xs) (Fin (real (length xs)))"

definition np_std :: "npfloat list \<Rightarrow> npfloat" where
  "np_std xs =
     ieee_sqrt (np_mean (map (\<lambda>x. let d = ieee_abs (ieee_sub x (np_mean xs)) in ieee_mul d d) xs))"

definition np_min :: "npfloat list \<Rightarrow> npfloat" where
  "np_min xs = fold ieee_min (tl xs) (hd xs)"

definition compute_stats :: "real list \<Rightarrow> BacktestStats" where
  "compute_stats equity_curve =
     (if length equity_curve < 2
      then \<lparr> bs_total_trades = 0, bs_win_rate = Fin 0, bs_profit_factor = Fin 0,
             bs_max_drawdown = Fin 0, bs_sharpe = Fin 0 \<rparr>
      else let returns = curve_returns equity_curve;
               total_trades = length returns;
               wins = length (filter ieee_gt0 returns);
               losses = length (filter ieee_lt0 returns);
               win_rate =
                 (if total_trades \<noteq> 0 then Fin (real wins / real total_trades) else Fin 0);
               gross_profit = np_sum (filter ieee_gt0 returns);
               gross_loss =
                 (if losses \<noteq> 0 then ieee_neg (np_sum (filter ieee_lt0 returns)) else Fin 0);
               profit_factor =
                 (if ieee_gt0 gross_loss then ieee_div gross_profit gross_loss
                  else if ieee_gt0 gross_profit then Fin 999
                  else Fin 0);
               peak = maximum_accumulate equity_curve;
               drawdowns = map2 (\<lambda>e p. ieee_div (Fin (e - p)) (Fin p)) equity_curve peak;
               max_dd = (if length drawdowns \<noteq> 0 then np_min drawdowns else Fin 0);
               sharpe =
                 (if length returns \<noteq> 0
                  then ieee_mul (ieee_div (np_mean returns)
                                   (ieee_add (np_std returns) (Fin (1 / 10 ^ 8))))
                         (Fin (sqrt 252))
                  else Fin 0)
           in \<lparr> bs_total_trades = total_trades, bs_win_rate = win_rate,
                 bs_profit_factor = profit_factor, bs_max_drawdown = max_dd,
                 bs_sharpe = sharpe \<rparr>)"

section \<open>Properties\<close>

subsection \<open>Auxiliary facts\<close>

lemma bind_err_Inr: "bind_err (Inr x) f = f x"
  by (simp add: bind_err_def)


subsection \<open>Consensus engine\<close>

lemma vol_components_cases:
  "vol_components v = Inl ZeroDivisionError \<and> vol_iv v = Some 0 \<and> (\<exists>h. vol_hv v = Some h \<and> 0 < h)
   \<or> (\<exists>comps. vol_components v = Inr comps)"
  by (auto simp: vol_components_def py_div_def bind_err_def split: option.splits)

text \<open>
  When \<open>compute_consensus\<close> returns, which it does unless \<open>iv\<close> is 0 while \<open>hv\<close> is present
  and positive, the response is determined by the inputs: the four sub-scores are those of
  lines 16 to 37, and \<open>confidence_score\<close> is the clamp to [0, 100] of their sum weighted by
  0.35, 0.25, 0.15 and 0.25.
\<close>

lemma compute_consensus_returns:
  assumes "\<not> (vol_iv volatility = Some 0 \<and> (\<exists>h. vol_hv volatility = Some h \<and> 0 < h))"
  shows "\<exists>comps. vol_components volatility = Inr comps
           \<and> compute_consensus probability volatility oi market =
               Inr \<lparr> confidence_score =
                       max 0 (min 100
                         (0.35 * (100 * max (pr_d2_probability probability)
                                            (pr_monte_carlo_itm_probability probability))
                          + 0.25 * (if comps \<noteq> [] then sum_list comps / real (length comps) else 50)
                          + 0.15 * (100 - min 100 (\<bar>oi_spike_score oi\<bar> * 10 + oi_anomaly_score oi * 10))
                          + 0.25 * ((50 + mk_mean_reversion_score market * 10
                                     + trend_component (mk_trend_signal market)
                                     + regime_map (mk_regime market)) / 3))),
                     details =
                       [''probability_score'' \<mapsto>
                          100 * max (pr_d2_probability probability)
                                    (pr_monte_carlo_itm_probability probability),
                        ''volatility_score'' \<mapsto>
                          (if comps \<noteq> [] then sum_list comps / real (length comps) else 50),
                        ''oi_score'' \<mapsto>
                          100 - min 100 (\<bar>oi_spike_score oi\<bar> * 10 + oi_anomaly_score oi * 10),
                        ''market_score'' \<mapsto>
                          (50 + mk_mean_reversion_score market * 10
                           + trend_component (mk_trend_signal market)
                           + regime_map (mk_regime market)) / 3] \<rparr>"
proof -
  from vol_components_cases [of volatility] assms
  obtain comps where c: "vol_components volatility = Inr comps" by blast
  define ps where
    "ps = 100 * max (pr_d2_probability probability) (pr_monte_carlo_itm_probability probability)"
  define vs where
    "vs = (if comps \<noteq> [] then sum_list comps / real (length comps) else 50)"
  define os where
    "os = 100 - min 100 (\<bar>oi_spike_score oi\<bar> * 10 + oi_anomaly_score oi * 10)"
  define ms where
    "ms = (50 + mk_mean_reversion_score market * 10 + trend_component (mk_trend_signal market)
           + regime_map (mk_regime market)) / 3"
  have r: "compute_consensus probability volatility oi market =
             Inr \<lparr> confidence_score =
                     max 0 (min 100 (ps * 0.35 + vs * 0.25 + os * 0.15 + ms * 0.25)),
                   details = [''probability_score'' \<mapsto> ps, ''volatility_score'' \<mapsto> vs,
                              ''oi_score'' \<mapsto> os, ''market_score'' \<mapsto> ms] \<rparr>"
    unfolding compute_consensus_def c bind_err_Inr Let_def ps_def vs_def os_def ms_def by simp
  have w: "ps * 0.35 + vs * 0.25 + os * 0.15 + ms * 0.25
           = 0.35 * ps + 0.25 * vs + 0.15 * os + 0.25 * ms"
    by simp
  have "compute_consensus probability volatility oi market =
             Inr \<lparr> confidence_score =
                     max 0 (min 100 (0.35 * ps + 0.25 * vs + 0.15 * os + 0.25 * ms)),
                   details = [''probability_score'' \<mapsto> ps, ''volatility_score'' \<mapsto> vs,
                              ''oi_score'' \<mapsto> os, ''market_score'' \<mapsto> ms] \<rparr>"
    unfolding r w ..
  then show ?thesis unfolding ps_def vs_def os_def ms_def using c by blast
qed

text \<open>
  C1 (the code departs from the claim). The claim promises a confidence score in [0, 100]
  for all inputs. With \<open>iv = 0.0\<close> and \<open>hv = 0.3\<close> no score is returned:
  \<open>compute_consensus\<close> raises \<open>ZeroDivisionError\<close> on line 20, whose guard tests \<open>hv\<close>
  where the divisor is \<open>iv\<close>. On every other input the claim holds
  (\<open>compute_consensus_returns\<close>).
\<close>

theorem C1_no_confidence_score_for_zero_iv:
  "compute_consensus
     \<lparr> pr_d2_probability = 3/5, pr_lognormal_itm_probability = 11/20,
       pr_binomial_itm_probability = 1/2, pr_monte_carlo_itm_probability = 29/50,
       pr_expected_move = 5 \<rparr>
     \<lparr> vol_iv = Some 0, vol_iv_rank = Some 0, vol_iv_percentile = Some 0,
       vol_hv = Some (3/10) \<rparr>
     \<lparr> oi_spike_score = 1, oi_volume_oi_ratio = 2, oi_trend = ''up'',
       oi_anomaly_score = 1/2, oi_pcr_oi = Some 1, oi_pcr_volume = Some 1 \<rparr>
     \<lparr> mk_atr_trend = DOWN, mk_vwap_signal = ''below'', mk_bollinger_squeeze = 1,
       mk_trend_signal = SIDEWAYS, mk_mean_reversion_score = 1, mk_regime = RANGE \<rparr>
   = Inl ZeroDivisionError"
  by (simp add: compute_consensus_def vol_components_def py_div_def bind_err_def)

text \<open>
  C2 (the code departs from the claim). The first volatility component is guarded by
  \<open>hv > 0\<close>, not by \<open>iv > 0\<close>: with \<open>iv = 0.0\<close> and \<open>hv = 0.2\<close> the quotient \<open>hv / iv\<close> is
  evaluated and \<open>compute_consensus\<close> raises \<open>ZeroDivisionError\<close>.
\<close>

theorem C2_zero_iv_is_divided_by:
  "compute_consensus
     \<lparr> pr_d2_probability = 1/2, pr_lognormal_itm_probability = 1/2,
       pr_binomial_itm_probability = 1/2, pr_monte_carlo_itm_probability = 1/2,
       pr_expected_move = 7 \<rparr>
     \<lparr> vol_iv = Some 0, vol_iv_rank = Some 50, vol_iv_percentile = Some 50,
       vol_hv = Some (1/5) \<rparr>
     \<lparr> oi_spike_score = 0, oi_volume_oi_ratio = 1, oi_trend = ''flat'',
       oi_anomaly_score = 0, oi_pcr_oi = None, oi_pcr_volume = None \<rparr>
     \<lparr> mk_atr_trend = UP, mk_vwap_signal = ''above'', mk_bollinger_squeeze = 0,
       mk_trend_signal = UP, mk_mean_reversion_score = 0, mk_regime = BULL \<rparr>
   = Inl ZeroDivisionError"
  by (simp add: compute_consensus_def vol_components_def py_div_def bind_err_def)

subsection \<open>The normal distribution function\<close>

lemma norm_cdf_term_coeff: "norm_cdf_term x n = x * (cdf_coeff n * (x ^ 2) ^ n)"
  by (simp add: norm_cdf_term_def cdf_coeff_def power_mult)

lemma cdf_coeff_bound: "norm (cdf_coeff n * y ^ n) \<le> inverse (fact n) * \<bar>y\<bar> ^ n"
proof -
  have "norm (cdf_coeff n * y ^ n) = \<bar>y\<bar> ^ n / (2 ^ n * fact n * real (2 * n + 1))"
    unfolding cdf_coeff_def real_norm_def abs_mult abs_divide power_abs by simp
  also have "\<dots> \<le> \<bar>y\<bar> ^ n / fact n"
  proof (rule divide_left_mono)
    have "1 * (fact n :: real) * 1 \<le> 2 ^ n * fact n * real (2 * n + 1)"
      by (intro mult_mono) simp_all
    then show "(fact n :: real) \<le> 2 ^ n * fact n * real (2 * n + 1)" by simp
    show "0 \<le> \<bar>y\<bar> ^ n" by simp
    show "0 < 2 ^ n * fact n * real (2 * n + 1) * (fact n :: real)" by simp
  qed
  finally show ?thesis by (simp add: divide_inverse mult.commute)
qed

lemma summable_cdf_coeff: "summable (\<lambda>n. cdf_coeff n * y ^ n)"
proof (rule summable_comparison_test)
  show "\<exists>N. \<forall>n\<ge>N. norm (cdf_coeff n * y ^ n) \<le> inverse (fact n) * \<bar>y\<bar> ^ n"
    using cdf_coeff_bound by blast
  show "summable (\<lambda>n. inverse (fact n) * \<bar>y\<bar> ^ n)" by (rule summable_exp)
qed

lemma summable_norm_cdf_term: "summable (norm_cdf_term x)"
proof -
  have "summable (\<lambda>n. x * (cdf_coeff n * (x ^ 2) ^ n))"
    by (rule summable_mult) (rule summable_cdf_coeff)
  then show ?thesis by (simp only: norm_cdf_term_coeff [symmetric])
qed

lemma norm_cdf_zero: "norm_cdf 0 = 1 / 2"
  by (simp add: norm_cdf_def norm_cdf_term_def)

lemma norm_cdf_term_minus: "norm_cdf_term (- x) n = - norm_cdf_term x n"
  by (simp add: norm_cdf_term_def)

lemma norm_cdf_minus: "norm_cdf (- x) = 1 - norm_cdf x"
proof -
  have "(\<Sum>n. norm_cdf_term (- x) n) = - (\<Sum>n. norm_cdf_term x n)"
    by (simp add: norm_cdf_term_minus suminf_minus summable_norm_cdf_term)
  then show ?thesis by (simp add: norm_cdf_def)
qed

text \<open>
  \<open>norm_cdf\<close> is the function whose derivative is the density \<open>norm_pdf\<close> and whose value
  at 0 is 1/2: the standard normal distribution function.
\<close>

lemma cdf_coeff_odd_pos: "0 < 1 + 2 * real n"
  by (simp add: add_pos_nonneg)

lemma cdf_coeff_alt: "cdf_coeff n = (- 1) ^ n / (2 ^ n * fact n) / (1 + 2 * real n)"
  unfolding cdf_coeff_def by (simp add: add.commute)

lemma cdf_coeff_odd: "(1 + 2 * real n) * cdf_coeff n = (- 1) ^ n / (2 ^ n * fact n)"
  unfolding cdf_coeff_alt using cdf_coeff_odd_pos [of n] by (simp del: of_nat_add)

lemma exp_series_term:
  "cdf_coeff n * y ^ n + 2 * real n * cdf_coeff n * y ^ n = (- y / 2) ^ n /\<^sub>R fact n"
proof -
  have "cdf_coeff n * y ^ n + 2 * real n * cdf_coeff n * y ^ n
        = (1 + 2 * real n) * cdf_coeff n * y ^ n"
    by (simp add: algebra_simps)
  also have "\<dots> = (- 1) ^ n * y ^ n / (2 ^ n * fact n)"
    unfolding cdf_coeff_odd by (rule times_divide_eq_left)
  also have "\<dots> = (- y / 2) ^ n / (fact n :: real)"
  proof -
    have "(- y / 2) ^ n = (- 1) ^ n * y ^ n / 2 ^ n"
      by (metis (no_types) mult_minus1 power_divide power_mult_distrib)
    then show ?thesis by simp
  qed
  also have "\<dots> = (- y / 2) ^ n /\<^sub>R fact n"
    unfolding real_scaleR_def divide_inverse [of _ "fact n"] by (rule mult.commute)
  finally show ?thesis .
qed

lemma cdf_series_identity:
  "(\<Sum>n. cdf_coeff n * y ^ n) + 2 * y * (\<Sum>n. diffs cdf_coeff n * y ^ n) = exp (- y / 2)"
proof -
  let ?F = "\<Sum>n. cdf_coeff n * y ^ n"
  let ?F' = "\<Sum>n. diffs cdf_coeff n * y ^ n"
  define b where "b = (\<lambda>n. 2 * real n * cdf_coeff n * y ^ n)"
  have s1: "(\<lambda>n. cdf_coeff n * y ^ n) sums ?F"
    by (rule summable_sums [OF summable_cdf_coeff])
  have "summable (\<lambda>n. diffs cdf_coeff n * y ^ n)"
    by (rule termdiff_converges_all) (rule summable_cdf_coeff)
  then have "(\<lambda>n. diffs cdf_coeff n * y ^ n) sums ?F'" by (rule summable_sums)
  then have m: "(\<lambda>n. (2 * y) * (diffs cdf_coeff n * y ^ n)) sums (2 * y * ?F')"
    by (rule sums_mult)
  have sh: "(\<lambda>n. (2 * y) * (diffs cdf_coeff n * y ^ n)) = (\<lambda>n. b (Suc n))"
    by (rule ext) (simp add: b_def diffs_def)
  have "(\<lambda>n. b (Suc n)) sums (2 * y * ?F')" using m unfolding sh .
  then have "b sums (2 * y * ?F' + b 0)" by (simp only: sums_Suc_iff)
  moreover have "b 0 = 0" by (simp add: b_def)
  ultimately have s2: "b sums (2 * y * ?F')" by simp
  have "(\<lambda>n. cdf_coeff n * y ^ n + b n) sums (?F + 2 * y * ?F')"
    by (rule sums_add [OF s1 s2])
  moreover have "(\<lambda>n. cdf_coeff n * y ^ n + b n) = (\<lambda>n. (- y / 2) ^ n /\<^sub>R fact n)"
    unfolding b_def by (rule ext) (rule exp_series_term)
  ultimately have "(\<lambda>n. (- y / 2) ^ n /\<^sub>R fact n) sums (?F + 2 * y * ?F')"
    by (simp only:)
  then show ?thesis using exp_converges [of "- y / 2"] sums_unique2 by blast
qed

lemma norm_cdf_series: "norm_cdf x = 1 / 2 + x * (\<Sum>n. cdf_coeff n * (x ^ 2) ^ n) / sqrt (2 * pi)"
proof -
  have "(\<Sum>n. norm_cdf_term x n) = x * (\<Sum>n. cdf_coeff n * (x ^ 2) ^ n)"
    unfolding norm_cdf_term_coeff by (rule suminf_mult [OF summable_cdf_coeff])
  then show ?thesis by (simp add: norm_cdf_def)
qed

lemma DERIV_norm_cdf: "DERIV norm_cdf x :> norm_pdf x"
proof -
  let ?F = "\<lambda>y. \<Sum>n. cdf_coeff n * y ^ n"
  let ?F' = "\<lambda>y. \<Sum>n. diffs cdf_coeff n * y ^ n"
  have dF: "DERIV ?F y :> ?F' y" for y
    by (rule termdiffs_strong_converges_everywhere) (rule summable_cdf_coeff)
  have d0: "DERIV (\<lambda>x. x ^ 2) x :> 2 * x"
    using DERIV_pow [of 2 x] by simp
  have d1: "DERIV (\<lambda>x. ?F (x ^ 2)) x :> ?F' (x ^ 2) * (2 * x)"
    by (rule DERIV_chain2 [OF dF d0])
  have d2: "DERIV (\<lambda>x. x * ?F (x ^ 2)) x :> 1 * ?F (x ^ 2) + ?F' (x ^ 2) * (2 * x) * x"
    by (rule DERIV_mult [OF DERIV_ident d1])
  have d3: "DERIV (\<lambda>x. x * ?F (x ^ 2) / sqrt (2 * pi)) x
              :> (1 * ?F (x ^ 2) + ?F' (x ^ 2) * (2 * x) * x) / sqrt (2 * pi)"
    by (rule DERIV_cdivide [OF d2])
  have d4: "DERIV (\<lambda>x. 1 / 2 + x * ?F (x ^ 2) / sqrt (2 * pi)) x
              :> 0 + (1 * ?F (x ^ 2) + ?F' (x ^ 2) * (2 * x) * x) / sqrt (2 * pi)"
    by (rule DERIV_add [OF DERIV_const d3])
  have e: "0 + (1 * ?F (x ^ 2) + ?F' (x ^ 2) * (2 * x) * x) / sqrt (2 * pi)
           = (?F (x ^ 2) + 2 * x ^ 2 * ?F' (x ^ 2)) / sqrt (2 * pi)"
    by (simp add: power2_eq_square)
  have "DERIV (\<lambda>x. 1 / 2 + x * ?F (x ^ 2) / sqrt (2 * pi)) x
          :> (?F (x ^ 2) + 2 * x ^ 2 * ?F' (x ^ 2)) / sqrt (2 * pi)"
    using d4 unfolding e .
  moreover have "?F (x ^ 2) + 2 * x ^ 2 * ?F' (x ^ 2) = exp (- (x ^ 2) / 2)"
    by (rule cdf_series_identity)
  moreover have "norm_cdf = (\<lambda>x. 1 / 2 + x * ?F (x ^ 2) / sqrt (2 * pi))"
    by (rule ext) (rule norm_cdf_series)
  ultimately show ?thesis by (simp add: norm_pdf_def)
qed

subsection \<open>Analytic probability and Greeks\<close>

text \<open>
  C4. For every input tuple, the analytic-d2 probability for CALL plus the one for PUT at
  the same inputs is exactly 1, \<open>norm.cdf\<close> being the standard normal distribution
  function: both calls compute the same \<open>d2\<close>, and \<open>\<Phi>(d2) + \<Phi>(-d2) = 1\<close>.
\<close>

theorem C4_d2_call_plus_put_is_one:
  "black_scholes_d2_probability norm_cdf spot strike days_to_expiry iv CALL
   + black_scholes_d2_probability norm_cdf spot strike days_to_expiry iv PUT = 1"
  by (simp add: black_scholes_d2_probability_def Let_def norm_cdf_minus)

theorem C4_d2_call_plus_put_is_one_witness:
  "black_scholes_d2_probability norm_cdf 100 100 30 (1/5) CALL
   + black_scholes_d2_probability norm_cdf 100 100 30 (1/5) PUT = 1"
  by (rule C4_d2_call_plus_put_is_one)

text \<open>
  C5 (amended). For identical inputs with \<open>spot > 0\<close>, \<open>strike > 0\<close> and \<open>iv > 0\<close>, the delta
  that \<open>compute_greeks\<close> returns for CALL minus the delta it returns for PUT is exactly 1,
  whatever \<open>norm.cdf\<close> computes; on a degenerate input (\<open>iv \<le> 0\<close>, \<open>spot \<le> 0\<close> or
  \<open>strike \<le> 0\<close>) both deltas are 0.
\<close>

theorem C5_delta_parity:
  "(0 < spot \<and> 0 < strike \<and> 0 < iv \<longrightarrow>
      (\<exists>dc dp. compute_greeks cdf spot strike days_to_expiry iv CALL rate ''delta'' = Some dc
              \<and> compute_greeks cdf spot strike days_to_expiry iv PUT rate ''delta'' = Some dp
              \<and> dc - dp = 1))
   \<and> (iv \<le> 0 \<or> spot \<le> 0 \<or> strike \<le> 0 \<longrightarrow>
        compute_greeks cdf spot strike days_to_expiry iv CALL rate ''delta'' = Some 0
      \<and> compute_greeks cdf spot strike days_to_expiry iv PUT rate ''delta'' = Some 0)"
proof -
  have a: "\<exists>dc dp. compute_greeks cdf spot strike days_to_expiry iv CALL rate ''delta'' = Some dc
                 \<and> compute_greeks cdf spot strike days_to_expiry iv PUT rate ''delta'' = Some dp
                 \<and> dc - dp = 1"
    if "0 < spot" "0 < strike" "0 < iv"
    using that by (simp add: compute_greeks_def Let_def split: prod.splits)
  have b: "compute_greeks cdf spot strike days_to_expiry iv option_type rate ''delta'' = Some 0"
    if "iv \<le> 0 \<or> spot \<le> 0 \<or> strike \<le> 0" for option_type
    using that by (auto simp: compute_greeks_def Let_def)
  show ?thesis using a b by blast
qed

theorem C5_delta_parity_witness:
  "(\<exists>dc dp. compute_greeks norm_cdf 100 100 30 (1/5) CALL 0 ''delta'' = Some dc
          \<and> compute_greeks norm_cdf 100 100 30 (1/5) PUT 0 ''delta'' = Some dp
          \<and> dc - dp = 1)
   \<and> compute_greeks norm_cdf 100 100 30 0 CALL 0 ''delta'' = Some 0
   \<and> compute_greeks norm_cdf 100 100 30 0 PUT 0 ''delta'' = Some 0"
  using C5_delta_parity [of 100 100 "1/5" norm_cdf 30 0] C5_delta_parity [of 100 100 0 norm_cdf 30 0]
  by simp

text \<open>
  C5 as stated fails on a degenerate input: with \<open>iv = 0\<close> the guard of \<open>compute_greeks\<close>
  returns delta 0 for CALL and for PUT, and the difference is 0.
\<close>

theorem C5_delta_parity_counterexample:
  "compute_greeks norm_cdf 100 100 30 0 CALL 0 ''delta'' = Some 0
   \<and> compute_greeks norm_cdf 100 100 30 0 PUT 0 ''delta'' = Some 0
   \<and> the (compute_greeks norm_cdf 100 100 30 0 CALL 0 ''delta'')
       - the (compute_greeks norm_cdf 100 100 30 0 PUT 0 ''delta'') \<noteq> 1"
  by (simp add: compute_greeks_def)

text \<open>
  C6. For any input with \<open>t \<le> 0\<close>, \<open>iv \<le> 0\<close>, \<open>spot \<le> 0\<close> or \<open>strike \<le> 0\<close>, \<open>compute_greeks\<close>
  returns the dict whose six entries price, delta, gamma, theta, vega and rho are all 0.
  The model of \<open>compute_greeks\<close> has no error value: the function returns on every input.
\<close>

theorem C6_degenerate_greeks_are_zero:
  assumes "real_of_int (max days_to_expiry 1) / 252 \<le> 0 \<or> iv \<le> 0 \<or> spot \<le> 0 \<or> strike \<le> 0"
  shows "compute_greeks cdf spot strike days_to_expiry iv option_type rate
         = [''price'' \<mapsto> 0, ''delta'' \<mapsto> 0, ''gamma'' \<mapsto> 0,
            ''theta'' \<mapsto> 0, ''vega'' \<mapsto> 0, ''rho'' \<mapsto> 0]"
  using assms by (auto simp: compute_greeks_def Let_def)

theorem C6_degenerate_greeks_are_zero_witness:
  "compute_greeks norm_cdf 0 0 0 0 CALL 0
   = [''price'' \<mapsto> 0, ''delta'' \<mapsto> 0, ''gamma'' \<mapsto> 0, ''theta'' \<mapsto> 0, ''vega'' \<mapsto> 0, ''rho'' \<mapsto> 0]"
  by (rule C6_degenerate_greeks_are_zero) simp

text \<open>
  C10. On a degenerate input (\<open>iv \<le> 0\<close>, \<open>spot \<le> 0\<close> or \<open>strike \<le> 0\<close>) \<open>_d1_d2\<close>
  returns (0, 0) and \<open>black_scholes_d2_probability\<close> returns \<open>\<Phi>(0) = 0.5\<close> for CALL and for PUT, while
  \<open>lognormal_itm_probability\<close> returns 0 on the same input.
\<close>

theorem C10_degenerate_defaults_disagree:
  assumes "iv \<le> 0 \<or> spot \<le> 0 \<or> strike \<le> 0"
  shows "d1_d2 spot strike (real_of_int (max days_to_expiry 1) / 252) iv 0 = (0, 0)
       \<and> black_scholes_d2_probability norm_cdf spot strike days_to_expiry iv CALL = 1 / 2
       \<and> black_scholes_d2_probability norm_cdf spot strike days_to_expiry iv PUT = 1 / 2
       \<and> lognormal_itm_probability norm_cdf spot strike days_to_expiry iv = 0"
  using assms
  by (auto simp: black_scholes_d2_probability_def lognormal_itm_probability_def d1_d2_def
      Let_def norm_cdf_zero)

theorem C10_degenerate_defaults_disagree_witness:
  "d1_d2 100 100 (real_of_int (max 30 1) / 252) 0 0 = (0, 0)
   \<and> black_scholes_d2_probability norm_cdf 100 100 30 0 CALL = 1 / 2
   \<and> black_scholes_d2_probability norm_cdf 100 100 30 0 PUT = 1 / 2
   \<and> lognormal_itm_probability norm_cdf 100 100 30 0 = 0"
  by (rule C10_degenerate_defaults_disagree) simp

subsection \<open>IV rank and IV percentile\<close>

lemma count_ones:
  "(\<Sum>x \<leftarrow> filter P xs. (1::int)) = int (card {i. i < length xs \<and> P (xs ! i)})"
  by (simp add: sum_list_triv length_filter_conv_card)

lemma iv_rank_card:
  "history \<noteq> [] \<Longrightarrow>
   iv_rank iv history
     = 100 * (real (card {i. i < length history \<and> history ! i \<le> iv}) / real (length history))"
  by (simp add: iv_rank_def count_ones)

lemma iv_percentile_card:
  "history \<noteq> [] \<Longrightarrow>
   iv_percentile iv history
     = 100 * (real (card {i. i < length history \<and> history ! i < iv}) / real (length history))"
  by (simp add: iv_percentile_def count_ones)

lemma card_below_le:
  "card {i. i < length (h::real list) \<and> h ! i < iv} \<le> card {i. i < length h \<and> h ! i \<le> iv}"
  by (rule card_mono) auto

lemma card_le_length: "card {i. i < length (h::real list) \<and> P (h ! i)} \<le> length h"
proof -
  have "card {i. i < length h \<and> P (h ! i)} \<le> card {..<length h}"
    by (rule card_mono) auto
  then show ?thesis by simp
qed

text \<open>
  C7. \<open>iv_rank\<close> is 100 times the fraction of the history samples (counted by position)
  that are \<open>\<le>\<close> the current IV, \<open>iv_percentile\<close> 100 times the fraction of those strictly
  \<open><\<close> it; hence \<open>iv_percentile \<le> iv_rank\<close>, both lie in [0, 100], and both are 0 for an
  empty history.
\<close>

theorem C7_iv_rank_and_percentile:
  "iv_rank iv [] = 0 \<and> iv_percentile iv [] = 0
   \<and> (history \<noteq> [] \<longrightarrow>
        iv_rank iv history
          = 100 * (real (card {i. i < length history \<and> history ! i \<le> iv}) / real (length history))
      \<and> iv_percentile iv history
          = 100 * (real (card {i. i < length history \<and> history ! i < iv}) / real (length history)))
   \<and> iv_percentile iv history \<le> iv_rank iv history
   \<and> 0 \<le> iv_percentile iv history \<and> iv_percentile iv history \<le> 100
   \<and> 0 \<le> iv_rank iv history \<and> iv_rank iv history \<le> 100"
proof (cases "history = []")
  case True
  then show ?thesis by (simp add: iv_rank_def iv_percentile_def)
next
  case False
  then have n: "0 < real (length history)" by simp
  have le: "real (card {i. i < length history \<and> history ! i < iv})
            \<le> real (card {i. i < length history \<and> history ! i \<le> iv})"
    using card_below_le [of history iv] by simp
  have up: "real (card {i. i < length history \<and> history ! i \<le> iv}) \<le> real (length history)"
    using card_le_length [of history "\<lambda>x. x \<le> iv"] by simp
  have a: "iv_percentile iv history \<le> iv_rank iv history"
    using False n le by (simp add: iv_rank_card iv_percentile_card divide_right_mono)
  have b: "0 \<le> iv_percentile iv history"
    using False by (simp add: iv_percentile_card)
  have g: "100 * (k / m) \<le> 100" if "0 < m" "k \<le> m" for k m :: real
    using that by (simp add: field_simps)
  have c: "iv_rank iv history \<le> 100"
    unfolding iv_rank_card [OF False] by (rule g [OF n up])
  have e: "iv_rank iv [] = 0 \<and> iv_percentile iv [] = 0"
    by (simp add: iv_rank_def iv_percentile_def)
  have d: "iv_percentile iv history \<le> 100 \<and> 0 \<le> iv_rank iv history"
    using a b c by linarith
  show ?thesis
    using e a b c d iv_rank_card [OF False, of iv] iv_percentile_card [OF False, of iv] by blast
qed

theorem C7_iv_rank_and_percentile_witness:
  "iv_rank (1/5) [1/10, 1/5, 3/10] = 200 / 3 \<and> iv_percentile (1/5) [1/10, 1/5, 3/10] = 100 / 3
   \<and> iv_percentile (1/5) [1/10, 1/5, 3/10] \<le> iv_rank (1/5) [1/10, 1/5, 3/10]
   \<and> iv_rank (1/5) [] = 0 \<and> iv_percentile (1/5) [] = 0"
  using C7_iv_rank_and_percentile [of "1/5" "[1/10, 1/5, 3/10]"]
  by (simp add: iv_rank_def iv_percentile_def)

subsection \<open>Strategy decision engine\<close>








subsection \<open>Backtest statistics\<close>

lemma sum_pos_nonneg: "0 \<le> sum_list (filter (\<lambda>r. r > 0) (rs::real list))"
  by (induction rs) auto

lemma sum_neg_nonpos: "sum_list (filter (\<lambda>r. r < 0) (rs::real list)) \<le> 0"
  by (induction rs) auto

lemma sum_pos_pos: "\<exists>r\<in>set rs. 0 < r \<Longrightarrow> 0 < sum_list (filter (\<lambda>r. r > 0) (rs::real list))"
proof (induction rs)
  case Nil
  then show ?case by simp
next
  case (Cons a rs)
  show ?case
  proof (cases "0 < a")
    case True
    then show ?thesis using sum_pos_nonneg [of rs] by simp
  next
    case False
    then show ?thesis using Cons by auto
  qed
qed

lemma sum_neg_neg: "\<exists>r\<in>set rs. r < 0 \<Longrightarrow> sum_list (filter (\<lambda>r. r < 0) (rs::real list)) < 0"
proof (induction rs)
  case Nil
  then show ?case by simp
next
  case (Cons a rs)
  show ?case
  proof (cases "a < 0")
    case True
    then show ?thesis using sum_neg_nonpos [of rs] by simp
  next
    case False
    then show ?thesis using Cons by auto
  qed
qed

lemma filter_neg_empty: "\<forall>r\<in>set rs. 0 \<le> r \<Longrightarrow> filter (\<lambda>r. r < 0) (rs::real list) = []"
  by (induction rs) auto

lemma curve_returns_finite:
  assumes "0 \<notin> set (butlast equity_curve)"
  shows "curve_returns equity_curve
         = map Fin (map2 (\<lambda>d a. d / a) (np_diff equity_curve) (butlast equity_curve))"
proof -
  have "map2 ieee_div (map Fin ds) (map Fin bs) = map Fin (map2 (\<lambda>d a. d / a) ds bs)"
    if "0 \<notin> set bs" for ds bs :: "real list"
    using that
  proof (induction ds arbitrary: bs)
    case Nil
    then show ?case by simp
  next
    case (Cons d ds)
    then show ?case by (cases bs) auto
  qed
  then show ?thesis unfolding curve_returns_def using assms by blast
qed

lemma np_sum_Fin: "np_sum (map Fin xs) = Fin (sum_list xs)"
  by (induction xs) (simp_all add: np_sum_def)

lemma filter_gt0_Fin: "filter ieee_gt0 (map Fin xs) = map Fin (filter (\<lambda>r. 0 < r) xs)"
  by (induction xs) simp_all

lemma filter_lt0_Fin: "filter ieee_lt0 (map Fin xs) = map Fin (filter (\<lambda>r. r < 0) xs)"
  by (induction xs) simp_all

lemma short_curve_no_returns: "length equity_curve < 2 \<Longrightarrow> curve_returns equity_curve = []"
  by (cases equity_curve; cases "tl equity_curve") (auto simp: curve_returns_def np_diff_def)

lemma profit_factor_finite_returns:
  assumes "curve_returns equity_curve = map Fin rs"
  shows "bs_profit_factor (compute_stats equity_curve) =
           Fin (let gp = sum_list (filter (\<lambda>r. r > 0) rs);
                    gl = - sum_list (filter (\<lambda>r. r < 0) rs)
                in if gl > 0 then gp / gl else if gp > 0 then 999 else 0)"
proof (cases "length equity_curve < 2")
  case True
  then have "rs = []" using short_curve_no_returns [OF True] assms by simp
  then show ?thesis using True by (simp add: compute_stats_def)
next
  case False
  have e: "filter (\<lambda>r. r < 0) rs = [] \<Longrightarrow> \<not> 0 < - sum_list (filter (\<lambda>r. r < 0) rs)" by simp
  show ?thesis using False e
    by (simp add: compute_stats_def assms Let_def filter_gt0_Fin filter_lt0_Fin np_sum_Fin)
qed

text \<open>
  On a curve whose entries but the last are not zero (they are the divisors of the returns)
  every return is finite and the profit factor is as the specification describes it: a
  finite number, never negative; exactly 999 when no return is negative and one is
  positive; the sum of the positive returns over the absolute sum of the negative ones when
  a return is negative.
\<close>

lemma profit_factor_without_zero_equity:
  assumes "0 \<notin> set (butlast equity_curve)"
  shows "\<exists>rs p. curve_returns equity_curve = map Fin rs
           \<and> bs_profit_factor (compute_stats equity_curve) = Fin p \<and> 0 \<le> p
           \<and> ((\<forall>r\<in>set rs. 0 \<le> r) \<and> (\<exists>r\<in>set rs. 0 < r) \<longrightarrow> p = 999)
           \<and> ((\<exists>r\<in>set rs. r < 0) \<longrightarrow>
                 p = sum_list (filter (\<lambda>r. r > 0) rs) / (- sum_list (filter (\<lambda>r. r < 0) rs)))"
proof -
  define rs where "rs = map2 (\<lambda>d a. d / a) (np_diff equity_curve) (butlast equity_curve)"
  let ?gp = "sum_list (filter (\<lambda>r. r > 0) rs)"
  let ?gl = "- sum_list (filter (\<lambda>r. r < 0) rs)"
  define p where "p = (if ?gl > 0 then ?gp / ?gl else if ?gp > 0 then 999 else 0)"
  have r: "curve_returns equity_curve = map Fin rs"
    unfolding rs_def by (rule curve_returns_finite [OF assms])
  have pf: "bs_profit_factor (compute_stats equity_curve) = Fin p"
    unfolding profit_factor_finite_returns [OF r] p_def Let_def ..
  have gp: "0 \<le> ?gp" by (rule sum_pos_nonneg)
  have p0: "0 \<le> p"
  proof (cases "0 < ?gl")
    case True
    have "0 \<le> ?gp / ?gl" by (rule divide_nonneg_pos [OF gp True])
    then show ?thesis using True by (simp add: p_def)
  next
    case False
    then show ?thesis by (simp add: p_def)
  qed
  have a: "p = 999" if "\<forall>r\<in>set rs. 0 \<le> r" "\<exists>r\<in>set rs. 0 < r"
  proof -
    have "?gl = 0" using filter_neg_empty [OF that(1)] by simp
    moreover have "0 < ?gp" using sum_pos_pos [OF that(2)] .
    ultimately show ?thesis by (simp add: p_def)
  qed
  have b: "p = ?gp / ?gl" if "\<exists>r\<in>set rs. r < 0"
  proof -
    have "0 < ?gl" using sum_neg_neg [OF that] by simp
    then show ?thesis by (simp add: p_def)
  qed
  show ?thesis using r pf p0 a b by blast
qed

text \<open>
  A curve that starts at zero: the first return is inf. With no loss after it the profit
  factor is the sentinel 999; with a loss after it the profit factor is inf.
\<close>

lemma profit_factor_after_zero_start:
  "bs_profit_factor (compute_stats [0, 100]) = Fin 999
   \<and> bs_profit_factor (compute_stats [0, 100, 50]) = PosInf"
  by (simp add: compute_stats_def curve_returns_def np_diff_def np_sum_def Let_def)

text \<open>
  C9 (the code departs from the claim). Nothing on line 29 keeps a zero equity value from
  dividing. On the curve [0.0, 1.0, 0.0, -1.0] the returns are [inf, -1.0, -inf], the gross
  profit and the gross loss are both inf, and \<open>profit_factor\<close> is inf / inf = nan: not a
  number that is \<open>\<ge> 0\<close>, and not the finite value that the comment on line 37 asks for. The
  maximal drawdown and the Sharpe ratio are nan as well.
\<close>

theorem C9_profit_factor_is_nan:
  "curve_returns [0, 1, 0, - 1] = [PosInf, Fin (- 1), NegInf]
   \<and> compute_stats [0, 1, 0, - 1]
       = \<lparr> bs_total_trades = 3, bs_win_rate = Fin (1/3), bs_profit_factor = NaN,
           bs_max_drawdown = NaN, bs_sharpe = NaN \<rparr>"
proof -
  have r: "curve_returns [0, 1, 0, - 1] = [PosInf, Fin (- 1), NegInf]"
    by (simp add: curve_returns_def np_diff_def)
  have "compute_stats [0, 1, 0, - 1]
        = \<lparr> bs_total_trades = 3, bs_win_rate = Fin (1/3), bs_profit_factor = NaN,
            bs_max_drawdown = NaN, bs_sharpe = NaN \<rparr>"
    by (simp add: compute_stats_def r np_sum_def np_mean_def np_std_def np_min_def
          maximum_accumulate_def Let_def ieee_sub_def)
  then show ?thesis using r by simp
qed

subsection \<open>Probability models\<close>
























end
